theory Spec2Isabelle
  imports Complex_Main "HOL-Library.AList"
begin

section \<open>Data model\<close>

text \<open>
  The backend is an Express application over two document collections, users and
  services. Identifiers, roles, categories and statuses are strings in the code and stay
  strings here; a field that a document may lack is an option. A collection is an
  association list from the document id to the document: \<open>map_of\<close> is the lookup by
  id, and the list carries the documents for the listing operations. A call on the
  service collection fails only with an error the store is given below (a validation
  failure, a value that does not cast, a duplicate key); the account lookup of
  \<open>protect\<close> fails when the environment says so.
\<close>

record user =
  uid :: string
  name :: string
  email :: string
  password :: "string option"
  role :: string

record service =
  title :: string
  description :: string
  price :: real
  duration :: real
  category :: string
  status :: string
  vendorId :: string
  imageUrl :: "string option"
  createdAt :: nat

record db =
  users :: "(string \<times> user) list"
  services :: "(string \<times> service) list"

text \<open>
  A JavaScript number as far as the price filter needs it: \<open>Number(s)\<close> is \<open>NaN\<close>
  when \<open>s\<close> does not parse, and no comparison with \<open>NaN\<close> holds.
\<close>

datatype jsnum = NaN | NegInf | Num real | PosInf

fun jsnum_le :: "jsnum \<Rightarrow> jsnum \<Rightarrow> bool" where
  "jsnum_le NaN _ = False"
| "jsnum_le _ NaN = False"
| "jsnum_le NegInf _ = True"
| "jsnum_le _ PosInf = True"
| "jsnum_le (Num x) (Num y) = (x \<le> y)"
| "jsnum_le _ _ = False"

text \<open>The query string of the listing request, and the selection object built from it.\<close>

record raw_params =
  rq_category :: "string option"
  rq_status :: "string option"
  rq_minPrice :: "string option"
  rq_maxPrice :: "string option"

record price_cond =
  gte :: "jsnum option"
  lte :: "jsnum option"

record query =
  query_status :: "string option"
  query_category :: "string option"
  query_price :: "price_cond option"

text \<open>
  The JSON body of a create or update request: the fields of the service schema it may
  carry at its top level, and the object under its \<open>$set\<close> key, the update operator
  of the driver, with the fields that object may carry. \<open>createService\<close> reads the
  first six top-level fields; \<open>updateService\<close> hands the whole body to the store as
  the patch.
\<close>

record update_fields =
  set_title :: "string option"
  set_description :: "string option"
  set_price :: "real option"
  set_duration :: "real option"
  set_category :: "string option"
  set_status :: "string option"
  set_vendorId :: "string option"
  set_imageUrl :: "string option option"

record body =
  b_title :: "string option"
  b_description :: "string option"
  b_price :: "real option"
  b_duration :: "real option"
  b_category :: "string option"
  b_status :: "string option"
  b_vendorId :: "string option"
  b_imageUrl :: "string option option"
  b_set :: "update_fields option"

text \<open>
  What \<open>populate('vendorId', fields)\<close> puts in place of the vendor reference: the
  vendor's id and the selected fields of the vendor's account.
\<close>

record vendor_info =
  vi_id :: string
  vi_name :: "string option"
  vi_email :: "string option"

datatype payload =
    NoData
  | One service "vendor_info option"
  | Many "(service \<times> vendor_info option) list"
  | Own "service list"
  | Doc "service option"

record response =
  code :: nat
  success :: "bool option"
  message :: "string option"
  error :: "string option"
  errors :: "string list option"
  count :: "nat option"
  data :: payload

text \<open>A middleware either answers the request or hands it on (\<open>next()\<close>).\<close>

datatype 'a outcome = Respond response | Next 'a

text \<open>The calls a controller issues on the service collection, in order.\<close>

datatype store_op =
    FindById string
  | Find query
  | FindByVendor string
  | Create service
  | FindByIdAndUpdate string body
  | FindByIdAndDelete string

text \<open>
  What the code takes from outside the repository: the driver's test of the identifier
  format, the token library's verification (the error message, or the id in the token),
  the error with which the account lookup by an id throws, if it does (an id that does
  not cast, a store that does not answer), JavaScript's \<open>Number\<close> on a string, the schema validators run on a new document and on
  the fields an update sets (the list of messages, empty when they pass), and the id and the
  time the driver gives a new document.
\<close>

record env =
  objectIdIsValid :: "string \<Rightarrow> bool"
  jwtVerify :: "string \<Rightarrow> string + string"
  userLookupError :: "string \<Rightarrow> string option"
  toNumber :: "string \<Rightarrow> jsnum"
  createValidators :: "service \<Rightarrow> string list"
  updateValidators :: "update_fields \<Rightarrow> string list"
  newId :: string
  now :: nat

section \<open>Responses\<close>

definition json :: "nat \<Rightarrow> bool \<Rightarrow> string \<Rightarrow> response" where
  "json c ok msg = \<lparr>code = c, success = Some ok, message = Some msg, error = None,
     errors = None, count = None, data = NoData\<rparr>"

definition jsonError :: "nat \<Rightarrow> string \<Rightarrow> string \<Rightarrow> response" where
  "jsonError c msg err = (json c False msg)\<lparr>error := Some err\<rparr>"

definition jsonData :: "nat \<Rightarrow> payload \<Rightarrow> response" where
  "jsonData c d = \<lparr>code = c, success = Some True, message = None, error = None,
     errors = None, count = None, data = d\<rparr>"

definition jsonList :: "nat \<Rightarrow> nat \<Rightarrow> payload \<Rightarrow> response" where
  "jsonList c n d = (jsonData c d)\<lparr>count := Some n\<rparr>"

definition jsonValidation :: "string list \<Rightarrow> response" where
  "jsonValidation msgs = (json 400 False ''Validation failed'')\<lparr>errors := Some msgs\<rparr>"

section \<open>Authentication and role middleware\<close>

text \<open>\<open>s.split(' ')\<close>: the pieces of \<open>s\<close> between single spaces, empty pieces kept.\<close>

fun split_space :: "string \<Rightarrow> string list" where
  "split_space [] = [[]]"
| "split_space (c # cs) =
     (if c = CHR '' '' then [] # split_space cs
      else (case split_space cs of
              [] \<Rightarrow> [[c]]
            | w # ws \<Rightarrow> (c # w) # ws))"

text \<open>
  The token of \<open>protect\<close>: the second piece of an authorization header that starts
  with \<open>Bearer\<close>; \<open>None\<close> is JavaScript's \<open>undefined\<close>.
\<close>

definition bearerToken :: "string option \<Rightarrow> string option" where
  "bearerToken h =
     (case h of
        None \<Rightarrow> None
      | Some a \<Rightarrow>
          if a \<noteq> [] \<and> take 6 a = ''Bearer''
          then (case split_space a of _ # t # _ \<Rightarrow> Some t | _ \<Rightarrow> None)
          else None)"

text \<open>\<open>select('-password')\<close>: the account without its password field.\<close>

definition select_without_password :: "user \<Rightarrow> user" where
  "select_without_password u = u\<lparr>password := None\<rparr>"

text \<open>
  \<open>protect\<close>: no token (absent or empty), a token that \<open>jwt.verify\<close> rejects or an
  account lookup that throws (both end in the \<open>catch\<close> branch), a token whose account
  is gone, or the account attached to the request.
\<close>

definition protect :: "env \<Rightarrow> db \<Rightarrow> string option \<Rightarrow> user outcome" where
  "protect E d h =
     (case bearerToken h of
        None \<Rightarrow> Respond (json 401 False ''Not authorized, no token'')
      | Some token \<Rightarrow>
          if token = [] then Respond (json 401 False ''Not authorized, no token'')
          else (case jwtVerify E token of
                  Inl err \<Rightarrow> Respond (jsonError 401 ''Not authorized, token failed'' err)
                | Inr decoded_id \<Rightarrow>
                    (case userLookupError E decoded_id of
                       Some err \<Rightarrow>
                         Respond (jsonError 401 ''Not authorized, token failed'' err)
                     | None \<Rightarrow>
                         (case map_option select_without_password
                                 (map_of (users d) decoded_id) of
                            None \<Rightarrow> Respond (json 401 False ''User not found'')
                          | Some u \<Rightarrow> Next u))))"

text \<open>\<open>authorize(...roles)\<close>: the body of the 403 has a message only.\<close>

definition authorize :: "string list \<Rightarrow> user \<Rightarrow> user outcome" where
  "authorize roles u =
     (if role u \<notin> set roles
      then Respond \<lparr>code = 403, success = None,
             message = Some ''Access denied: insufficient permissions'', error = None,
             errors = None, count = None, data = NoData\<rparr>
      else Next u)"

section \<open>The service collection\<close>

text \<open>JavaScript truthiness of an optional string and of an optional number.\<close>

definition truthy :: "string option \<Rightarrow> bool" where
  "truthy v = (case v of None \<Rightarrow> False | Some s \<Rightarrow> s \<noteq> [])"

definition truthy_num :: "real option \<Rightarrow> bool" where
  "truthy_num v = (case v of None \<Rightarrow> False | Some x \<Rightarrow> x \<noteq> 0)"

text \<open>The schema's \<open>trim: true\<close> on title, description and category (ASCII white space).\<close>

definition is_space :: "char \<Rightarrow> bool" where
  "is_space c = (c \<in> {CHR '' '', CHR 0x09, CHR 0x0A, CHR 0x0B, CHR 0x0C, CHR 0x0D})"

definition trim :: "string \<Rightarrow> string" where
  "trim s = rev (dropWhile is_space (rev (dropWhile is_space s)))"

text \<open>
  A document satisfies a selection object when it has the status and the category asked
  for and its price is within the bounds given.
\<close>

definition matches :: "query \<Rightarrow> service \<Rightarrow> bool" where
  "matches q s =
     ((case query_status q of None \<Rightarrow> True | Some st \<Rightarrow> status s = st) \<and>
      (case query_category q of None \<Rightarrow> True | Some c \<Rightarrow> category s = c) \<and>
      (case query_price q of
         None \<Rightarrow> True
       | Some pc \<Rightarrow>
           (case gte pc of None \<Rightarrow> True | Some b \<Rightarrow> jsnum_le b (Num (price s))) \<and>
           (case lte pc of None \<Rightarrow> True | Some b \<Rightarrow> jsnum_le (Num (price s)) b)))"

text \<open>The driver casts the bounds to the schema's number type and refuses \<open>NaN\<close>.\<close>

definition castFails :: "query \<Rightarrow> bool" where
  "castFails q =
     (case query_price q of
        None \<Rightarrow> False
      | Some pc \<Rightarrow> gte pc = Some NaN \<or> lte pc = Some NaN)"

definition castError :: string where
  "castError = ''Cast to Number failed for value NaN at path price''"

text \<open>\<open>sort({ createdAt: -1 })\<close>: newest first.\<close>

definition newest_first :: "service list \<Rightarrow> service list" where
  "newest_first xs = sort_key (\<lambda>s. - int (createdAt s)) xs"

definition Service_find :: "query \<Rightarrow> (string \<times> service) list \<Rightarrow> string + service list" where
  "Service_find q coll =
     (if castFails q then Inl castError
      else Inr (newest_first (filter (matches q) (map snd coll))))"

definition Service_findByVendor :: "string \<Rightarrow> (string \<times> service) list \<Rightarrow> service list" where
  "Service_findByVendor v coll = newest_first (filter (\<lambda>s. vendorId s = v) (map snd coll))"

definition populate :: "string list \<Rightarrow> (string \<times> user) list \<Rightarrow> service \<Rightarrow> service \<times> vendor_info option" where
  "populate sel us s =
     (s, map_option
           (\<lambda>u. \<lparr>vi_id = uid u,
                 vi_name = (if ''name'' \<in> set sel then Some (name u) else None),
                 vi_email = (if ''email'' \<in> set sel then Some (email u) else None)\<rparr>)
           (map_of us (vendorId s)))"

text \<open>
  The driver turns the patch into one \<open>$set\<close>: the object under the body's
  \<open>$set\<close> key, with every top-level field of the body written over it.
\<close>

definition or_else :: "'a option \<Rightarrow> 'a \<Rightarrow> 'a" where
  "or_else v d = (case v of None \<Rightarrow> d | Some x \<Rightarrow> x)"

definition no_fields :: update_fields where
  "no_fields = \<lparr>set_title = None, set_description = None, set_price = None,
     set_duration = None, set_category = None, set_status = None, set_vendorId = None,
     set_imageUrl = None\<rparr>"

definition written_over :: "'a option \<Rightarrow> 'a option \<Rightarrow> 'a option" where
  "written_over outer inner = (case outer of None \<Rightarrow> inner | Some x \<Rightarrow> Some x)"

definition mergedSet :: "body \<Rightarrow> update_fields" where
  "mergedSet p =
     (let u = or_else (b_set p) no_fields in
      \<lparr>set_title = written_over (b_title p) (set_title u),
       set_description = written_over (b_description p) (set_description u),
       set_price = written_over (b_price p) (set_price u),
       set_duration = written_over (b_duration p) (set_duration u),
       set_category = written_over (b_category p) (set_category u),
       set_status = written_over (b_status p) (set_status u),
       set_vendorId = written_over (b_vendorId p) (set_vendorId u),
       set_imageUrl = written_over (b_imageUrl p) (set_imageUrl u)\<rparr>)"

text \<open>The setters of the schema on the fields to set, and those fields written over a document.\<close>

definition castUpdate :: "update_fields \<Rightarrow> update_fields" where
  "castUpdate u = u\<lparr>set_title := map_option trim (set_title u),
                    set_description := map_option trim (set_description u),
                    set_category := map_option trim (set_category u)\<rparr>"

definition applyPatch :: "update_fields \<Rightarrow> service \<Rightarrow> service" where
  "applyPatch u s =
     s\<lparr>title := or_else (set_title u) (title s),
       description := or_else (set_description u) (description s),
       price := or_else (set_price u) (price s),
       duration := or_else (set_duration u) (duration s),
       category := or_else (set_category u) (category s),
       status := or_else (set_status u) (status s),
       vendorId := or_else (set_vendorId u) (vendorId s),
       imageUrl := or_else (set_imageUrl u) (imageUrl s)\<rparr>"

text \<open>What a call that writes to the store throws.\<close>

datatype store_error = ValidationError "string list" | OtherError string

definition castIdError :: string where
  "castIdError = ''Cast to ObjectId failed at path vendorId''"

text \<open>
  \<open>findByIdAndUpdate(id, patch, { new: true, runValidators: true })\<close>: a vendor id that
  does not cast, the validation messages, or the collection after the update with the
  updated document.
\<close>

definition Service_findByIdAndUpdate ::
  "env \<Rightarrow> string \<Rightarrow> body \<Rightarrow> (string \<times> service) list \<Rightarrow>
     store_error + ((string \<times> service) list \<times> service option)" where
  "Service_findByIdAndUpdate E i p coll =
     (let u = castUpdate (mergedSet p); msgs = updateValidators E u in
      if (case set_vendorId u of None \<Rightarrow> False | Some v \<Rightarrow> \<not> objectIdIsValid E v)
      then Inl (OtherError castIdError)
      else if msgs \<noteq> [] then Inl (ValidationError msgs)
      else (case map_of coll i of
              None \<Rightarrow> Inr (coll, None)
            | Some s \<Rightarrow> Inr (AList.update i (applyPatch u s) coll, Some (applyPatch u s))))"

text \<open>
  \<open>Service.create\<close>: the validation messages, the driver's duplicate-key error, or the
  collection with the new document.
\<close>

definition duplicateKey :: string where
  "duplicateKey = ''E11000 duplicate key error''"

definition Service_create ::
  "env \<Rightarrow> service \<Rightarrow> (string \<times> service) list \<Rightarrow>
     store_error + ((string \<times> service) list \<times> service)" where
  "Service_create E s coll =
     (let s' = s\<lparr>title := trim (title s), description := trim (description s),
                 category := trim (category s), createdAt := now E\<rparr>;
          msgs = createValidators E s' in
      if msgs \<noteq> [] then Inl (ValidationError msgs)
      else if newId E \<in> fst ` set coll then Inl (OtherError duplicateKey)
      else Inr (coll @ [(newId E, s')], s'))"

section \<open>Controllers\<close>

text \<open>
  A controller returns its response, the database it leaves and the calls it issued on
  the service collection.
\<close>

type_synonym result = "response \<times> db \<times> store_op list"

definition invalidId :: response where
  "invalidId = json 400 False ''Invalid service ID format''"

definition notFound :: response where
  "notFound = json 404 False ''Service not found''"

definition isValidObjectId :: "env \<Rightarrow> string \<Rightarrow> bool" where
  "isValidObjectId E i = objectIdIsValid E i"

definition uploadPath :: "string \<Rightarrow> string" where
  "uploadPath filename = ''/uploads/services/'' @ filename"

definition createService :: "env \<Rightarrow> user \<Rightarrow> string option \<Rightarrow> body \<Rightarrow> db \<Rightarrow> result" where
  "createService E u file b d =
     (if uid u = [] then
        (json 400 False ''Vendor ID could not be extracted from token'', d, [])
      else if \<not> truthy (b_title b) \<or> \<not> truthy (b_description b) \<or> \<not> truthy_num (b_price b)
              \<or> \<not> truthy_num (b_duration b) \<or> \<not> truthy (b_category b) then
        (json 400 False
           ''Please provide all required fields: title, description, price, duration, category'',
         d, [])
      else
        (let s = \<lparr>title = or_else (b_title b) [],
                   description = or_else (b_description b) [],
                   price = or_else (b_price b) 0,
                   duration = or_else (b_duration b) 0,
                   category = or_else (b_category b) [],
                   status = (if truthy (b_status b) then or_else (b_status b) [] else ''active''),
                   vendorId = uid u,
                   imageUrl = map_option uploadPath file,
                   createdAt = 0\<rparr>
         in case Service_create E s (services d) of
              Inl (ValidationError msgs) \<Rightarrow> (jsonValidation msgs, d, [Create s])
            | Inl (OtherError err) \<Rightarrow>
                (jsonError 500 ''Failed to create service'' err, d, [Create s])
            | Inr (coll, doc) \<Rightarrow>
                ((json 201 True ''Service created successfully'')\<lparr>data := Doc (Some doc)\<rparr>,
                 d\<lparr>services := coll\<rparr>, [Create s])))"

definition getMyServices :: "user \<Rightarrow> db \<Rightarrow> result" where
  "getMyServices u d =
     (let found = Service_findByVendor (uid u) (services d)
      in (jsonList 200 (length found) (Own found), d, [FindByVendor (uid u)]))"

text \<open>The selection object of \<open>getAllServices\<close>, built by the same assignments in the same order.\<close>

definition getAllServices_query :: "env \<Rightarrow> string \<Rightarrow> raw_params \<Rightarrow> query" where
  "getAllServices_query E userRole rq =
     (let q0 = \<lparr>query_status = None, query_category = None, query_price = None\<rparr>;
          q1 = (if userRole = ''client'' then q0\<lparr>query_status := Some ''active''\<rparr> else q0);
          q2 = (if truthy (rq_category rq) then q1\<lparr>query_category := rq_category rq\<rparr> else q1);
          q3 = (if truthy (rq_status rq) \<and> userRole \<noteq> ''client''
                then q2\<lparr>query_status := rq_status rq\<rparr> else q2)
      in if truthy (rq_minPrice rq) \<or> truthy (rq_maxPrice rq) then
           (let p0 = \<lparr>gte = None, lte = None\<rparr>;
                p1 = (if truthy (rq_minPrice rq)
                      then p0\<lparr>gte := map_option (toNumber E) (rq_minPrice rq)\<rparr> else p0);
                p2 = (if truthy (rq_maxPrice rq)
                      then p1\<lparr>lte := map_option (toNumber E) (rq_maxPrice rq)\<rparr> else p1)
            in q3\<lparr>query_price := Some p2\<rparr>)
         else q3)"

definition getAllServices :: "env \<Rightarrow> user \<Rightarrow> raw_params \<Rightarrow> db \<Rightarrow> result" where
  "getAllServices E u rq d =
     (let q = getAllServices_query E (role u) rq
      in case Service_find q (services d) of
           Inl err \<Rightarrow> (jsonError 500 ''Failed to fetch services'' err, d, [Find q])
         | Inr found \<Rightarrow>
             (jsonList 200 (length found)
                (Many (map (populate [''name'', ''email''] (users d)) found)),
              d, [Find q]))"

text \<open>
  The second copy of the controller in the repository (the annotated one) builds its
  selection object with its own copy of the code.
\<close>

definition getAllServices_query_annotated :: "env \<Rightarrow> string \<Rightarrow> raw_params \<Rightarrow> query" where
  "getAllServices_query_annotated E userRole rq =
     (let q0 = \<lparr>query_status = None, query_category = None, query_price = None\<rparr>;
          q1 = (if userRole = ''client'' then q0\<lparr>query_status := Some ''active''\<rparr> else q0);
          q2 = (if truthy (rq_category rq) then q1\<lparr>query_category := rq_category rq\<rparr> else q1);
          q3 = (if truthy (rq_status rq) \<and> userRole \<noteq> ''client''
                then q2\<lparr>query_status := rq_status rq\<rparr> else q2)
      in if truthy (rq_minPrice rq) \<or> truthy (rq_maxPrice rq) then
           (let p0 = \<lparr>gte = None, lte = None\<rparr>;
                p1 = (if truthy (rq_minPrice rq)
                      then p0\<lparr>gte := map_option (toNumber E) (rq_minPrice rq)\<rparr> else p0);
                p2 = (if truthy (rq_maxPrice rq)
                      then p1\<lparr>lte := map_option (toNumber E) (rq_maxPrice rq)\<rparr> else p1)
            in q3\<lparr>query_price := Some p2\<rparr>)
         else q3)"

definition getServiceById :: "env \<Rightarrow> string \<Rightarrow> db \<Rightarrow> result" where
  "getServiceById E i d =
     (if \<not> isValidObjectId E i then (invalidId, d, [])
      else (case map_of (services d) i of
              None \<Rightarrow> (notFound, d, [FindById i])
            | Some s \<Rightarrow>
                (case populate [''name'', ''email'', ''phone''] (users d) s of
                   (s', v) \<Rightarrow> (jsonData 200 (One s' v), d, [FindById i]))))"

definition updateService :: "env \<Rightarrow> user \<Rightarrow> string option \<Rightarrow> string \<Rightarrow> body \<Rightarrow> db \<Rightarrow> result" where
  "updateService E u file i updateData d =
     (if \<not> isValidObjectId E i then (invalidId, d, [])
      else (case map_of (services d) i of
              None \<Rightarrow> (notFound, d, [FindById i])
            | Some s \<Rightarrow>
                if vendorId s \<noteq> uid u then
                  (json 403 False ''You are not authorized to update this service'', d,
                   [FindById i])
                else
                  (let p1 = updateData\<lparr>b_vendorId := None\<rparr>;
                       p2 = (case file of
                               None \<Rightarrow> p1
                             | Some f \<Rightarrow> p1\<lparr>b_imageUrl := Some (Some (uploadPath f))\<rparr>)
                   in case Service_findByIdAndUpdate E i p2 (services d) of
                        Inl (ValidationError msgs) \<Rightarrow>
                          (jsonValidation msgs, d, [FindById i, FindByIdAndUpdate i p2])
                      | Inl (OtherError err) \<Rightarrow>
                          (jsonError 500 ''Failed to update service'' err, d,
                           [FindById i, FindByIdAndUpdate i p2])
                      | Inr (coll, doc) \<Rightarrow>
                          ((json 200 True ''Service updated successfully'')\<lparr>data := Doc doc\<rparr>,
                           d\<lparr>services := coll\<rparr>, [FindById i, FindByIdAndUpdate i p2]))))"

definition deleteService :: "env \<Rightarrow> user \<Rightarrow> string \<Rightarrow> db \<Rightarrow> result" where
  "deleteService E u i d =
     (if \<not> isValidObjectId E i then (invalidId, d, [])
      else (case map_of (services d) i of
              None \<Rightarrow> (notFound, d, [FindById i])
            | Some s \<Rightarrow>
                (let isOwner = (vendorId s = uid u); isAdmin = (role u = ''admin'')
                 in if \<not> isOwner \<and> \<not> isAdmin then
                      (json 403 False ''You are not authorized to delete this service'', d,
                       [FindById i])
                    else
                      (json 200 True ''Service deleted successfully'',
                       d\<lparr>services := AList.delete i (services d)\<rparr>,
                       [FindById i, FindByIdAndDelete i]))))"

section \<open>Routes\<close>

datatype http_method = GET | POST | PUT | DELETE

text \<open>
  A request to \<open>/api/services\<close>: \<open>req_path\<close> is what follows the mount point, empty
  for the collection itself.
\<close>

record request =
  req_method :: http_method
  req_path :: string
  req_authorization :: "string option"
  req_query :: raw_params
  req_body :: body
  req_file :: "string option"

definition guarded :: "env \<Rightarrow> db \<Rightarrow> request \<Rightarrow> string list \<Rightarrow> (user \<Rightarrow> result) \<Rightarrow> result" where
  "guarded E d r roles controller =
     (case protect E d (req_authorization r) of
        Respond res \<Rightarrow> (res, d, [])
      | Next u \<Rightarrow>
          (case authorize roles u of
             Respond res \<Rightarrow> (res, d, [])
           | Next u' \<Rightarrow> controller u'))"

definition routeNotFound :: "request \<Rightarrow> response" where
  "routeNotFound r = json 404 False (''Route /api/services/'' @ req_path r @ '' not found'')"

text \<open>The router, its routes tried in the order they are registered.\<close>

definition router :: "env \<Rightarrow> request \<Rightarrow> db \<Rightarrow> result" where
  "router E r d =
     (if req_method r = GET \<and> req_path r = [] then
        guarded E d r [''client'', ''admin'', ''vendor'']
          (\<lambda>u. getAllServices E u (req_query r) d)
      else if req_method r = GET \<and> req_path r = ''my-services'' then
        guarded E d r [''vendor''] (\<lambda>u. getMyServices u d)
      else if req_method r = GET then
        guarded E d r [''client'', ''vendor'', ''admin'']
          (\<lambda>u. getServiceById E (req_path r) d)
      else if req_method r = POST \<and> req_path r = [] then
        guarded E d r [''vendor''] (\<lambda>u. createService E u (req_file r) (req_body r) d)
      else if req_method r = PUT \<and> req_path r \<noteq> [] then
        guarded E d r [''vendor'']
          (\<lambda>u. updateService E u (req_file r) (req_path r) (req_body r) d)
      else if req_method r = DELETE \<and> req_path r \<noteq> [] then
        guarded E d r [''vendor'', ''admin''] (\<lambda>u. deleteService E u (req_path r) d)
      else (routeNotFound r, d, []))"

section \<open>An example deployment\<close>

text \<open>
  A concrete environment and database on which the functions above evaluate: identifiers
  are 24 hexadecimal digits, four tokens are known to the verifier, and the collection
  holds an active and an inactive service of the same vendor.
\<close>

definition is_hex :: "char \<Rightarrow> bool" where
  "is_hex c = (c \<in> set ''0123456789abcdefABCDEF'')"

definition hex24 :: "string \<Rightarrow> bool" where
  "hex24 i = (length i = 24 \<and> list_all is_hex i)"

definition adminId :: string where "adminId = ''64a1f0c2e4b0a1b2c3d4e501''"
definition vendorOne :: string where "vendorOne = ''64a1f0c2e4b0a1b2c3d4e502''"
definition vendorTwo :: string where "vendorTwo = ''64a1f0c2e4b0a1b2c3d4e503''"
definition clientId :: string where "clientId = ''64a1f0c2e4b0a1b2c3d4e504''"
definition ghostId :: string where "ghostId = ''64a1f0c2e4b0a1b2c3d4e505''"
definition haircutId :: string where "haircutId = ''64a1f0c2e4b0a1b2c3d4e601''"
definition facialId :: string where "facialId = ''64a1f0c2e4b0a1b2c3d4e602''"
definition freshId :: string where "freshId = ''64a1f0c2e4b0a1b2c3d4e603''"
definition absentId :: string where "absentId = ''64a1f0c2e4b0a1b2c3d4e6ff''"

definition demo_verify :: "string \<Rightarrow> string + string" where
  "demo_verify t =
     (if t = ''tok-admin'' then Inr adminId
      else if t = ''tok-vendor1'' then Inr vendorOne
      else if t = ''tok-vendor2'' then Inr vendorTwo
      else if t = ''tok-client'' then Inr clientId
      else if t = ''tok-ghost'' then Inr ghostId
      else if t = ''tok-legacy'' then Inr ''user-17''
      else Inl ''jwt malformed'')"

definition demo_lookup_error :: "string \<Rightarrow> string option" where
  "demo_lookup_error i =
     (if hex24 i then None else Some ''Cast to ObjectId failed at path _id'')"

definition demo_number :: "string \<Rightarrow> jsnum" where
  "demo_number s =
     (if s = ''10'' then Num 10 else if s = ''50'' then Num 50
      else if s = ''100'' then Num 100 else NaN)"

definition demo_env :: env where
  "demo_env = \<lparr>objectIdIsValid = hex24, jwtVerify = demo_verify,
     userLookupError = demo_lookup_error, toNumber = demo_number,
     createValidators = (\<lambda>_. []), updateValidators = (\<lambda>_. []),
     newId = freshId, now = 30\<rparr>"

definition account :: "string \<Rightarrow> string \<Rightarrow> string \<Rightarrow> user" where
  "account i n r = \<lparr>uid = i, name = n, email = n @ ''@glambook.test'',
     password = Some ''$2b$10$hash'', role = r\<rparr>"

definition haircut :: service where
  "haircut = \<lparr>title = ''Haircut'', description = ''Professional haircut with styling'',
     price = 50, duration = 60, category = ''Hair'', status = ''active'',
     vendorId = vendorOne, imageUrl = None, createdAt = 10\<rparr>"

definition facial :: service where
  "facial = \<lparr>title = ''Facial'', description = ''Deep cleansing facial'',
     price = 80, duration = 45, category = ''Skincare'', status = ''inactive'',
     vendorId = vendorOne, imageUrl = None, createdAt = 20\<rparr>"

definition demo_db :: db where
  "demo_db = \<lparr>users = [(adminId, account adminId ''ada'' ''admin''),
                         (vendorOne, account vendorOne ''vera'' ''vendor''),
                         (vendorTwo, account vendorTwo ''vito'' ''vendor''),
                         (clientId, account clientId ''cleo'' ''client'')],
              services = [(haircutId, haircut), (facialId, facial)]\<rparr>"

definition no_params :: raw_params where
  "no_params = \<lparr>rq_category = None, rq_status = None, rq_minPrice = None, rq_maxPrice = None\<rparr>"

definition no_body :: body where
  "no_body = \<lparr>b_title = None, b_description = None, b_price = None, b_duration = None,
     b_category = None, b_status = None, b_vendorId = None, b_imageUrl = None,
     b_set = None\<rparr>"

definition demo_request :: "http_method \<Rightarrow> string \<Rightarrow> string \<Rightarrow> request" where
  "demo_request m p token = \<lparr>req_method = m, req_path = p,
     req_authorization = Some (''Bearer '' @ token), req_query = no_params,
     req_body = no_body, req_file = None\<rparr>"

text \<open>The services a response carries.\<close>

definition listed :: "response \<Rightarrow> service list" where
  "listed res =
     (case data res of
        NoData \<Rightarrow> []
      | One s _ \<Rightarrow> [s]
      | Many xs \<Rightarrow> map fst xs
      | Own xs \<Rightarrow> xs
      | Doc None \<Rightarrow> []
      | Doc (Some s) \<Rightarrow> [s])"

text \<open>The price bounds a selection object carries.\<close>

definition lowerBound :: "query \<Rightarrow> jsnum option" where
  "lowerBound q = (case query_price q of None \<Rightarrow> None | Some pc \<Rightarrow> gte pc)"

definition upperBound :: "query \<Rightarrow> jsnum option" where
  "upperBound q = (case query_price q of None \<Rightarrow> None | Some pc \<Rightarrow> lte pc)"

text \<open>
  Two updates by the owner that name another vendor as the owner: at the top level of the
  body, and under the body's \<open>$set\<close> key.
\<close>

definition takeover :: body where
  "takeover = no_body\<lparr>b_price := Some 60, b_vendorId := Some vendorTwo\<rparr>"

definition takeover_request :: request where
  "takeover_request = (demo_request PUT haircutId ''tok-vendor1'')\<lparr>req_body := takeover\<rparr>"

definition handover :: body where
  "handover = no_body\<lparr>b_set := Some (no_fields\<lparr>set_vendorId := Some vendorTwo\<rparr>)\<rparr>"

definition handover_request :: request where
  "handover_request = (demo_request PUT haircutId ''tok-vendor1'')\<lparr>req_body := handover\<rparr>"

section \<open>Lemmas about the store\<close>

lemma set_newest_first: "set (newest_first xs) = set xs"
  by (simp add: newest_first_def)

lemma Service_find_matches:
  "Service_find q coll = Inr found \<Longrightarrow> s \<in> set found \<Longrightarrow> matches q s"
  by (auto simp: Service_find_def set_newest_first split: if_splits)

lemma matches_status: "matches q s \<Longrightarrow> query_status q = Some st \<Longrightarrow> status s = st"
  by (simp add: matches_def)

lemma query_client_status:
  "query_status (getAllServices_query E ''client'' rq) = Some ''active''"
  by (simp add: getAllServices_query_def Let_def)

lemma query_client_ignores_status:
  "getAllServices_query E ''client'' (rq\<lparr>rq_status := st\<rparr>) = getAllServices_query E ''client'' rq"
  by (simp add: getAllServices_query_def Let_def)

lemma query_annotated_eq:
  "getAllServices_query_annotated E r rq = getAllServices_query E r rq"
  by (simp add: getAllServices_query_annotated_def getAllServices_query_def)

lemma listed_getAllServices:
  "s \<in> set (listed (fst (getAllServices E u rq d))) \<Longrightarrow>
     matches (getAllServices_query E (role u) rq) s"
  by (auto simp: getAllServices_def Let_def listed_def jsonList_def jsonData_def jsonError_def
        json_def populate_def comp_def
      split: sum.splits dest: Service_find_matches)

section \<open>Lemmas about the controllers\<close>

lemma guarded_Next:
  "protect E d (req_authorization r) = Next u \<Longrightarrow> role u \<in> set roles \<Longrightarrow>
     guarded E d r roles c = c u"
  by (simp add: guarded_def authorize_def)

lemma guarded_reject:
  "protect E d (req_authorization r) = Next u \<Longrightarrow> role u \<notin> set roles \<Longrightarrow>
     guarded E d r roles c =
       (\<lparr>code = 403, success = None,
          message = Some ''Access denied: insufficient permissions'', error = None,
          errors = None, count = None, data = NoData\<rparr>, d, [])"
  by (simp add: guarded_def authorize_def)

lemma protect_services: "protect E (d\<lparr>services := coll\<rparr>) h = protect E d h"
  by (simp add: protect_def split: option.splits sum.splits)

section \<open>Evaluation on the example deployment\<close>

lemmas demo_ids = adminId_def vendorOne_def vendorTwo_def clientId_def ghostId_def
  haircutId_def facialId_def freshId_def absentId_def

lemmas demo_defs = demo_env_def demo_db_def demo_verify_def demo_lookup_error_def
  demo_number_def account_def
  haircut_def facial_def demo_request_def no_params_def no_body_def hex24_def is_hex_def

lemmas protect_defs = protect_def bearerToken_def select_without_password_def

lemma protect_admin:
  "protect demo_env demo_db (Some ''Bearer tok-admin'') =
     Next ((account adminId ''ada'' ''admin'')\<lparr>password := None\<rparr>)"
  by (simp add: protect_defs demo_defs demo_ids)

lemma protect_vendor1:
  "protect demo_env demo_db (Some ''Bearer tok-vendor1'') =
     Next ((account vendorOne ''vera'' ''vendor'')\<lparr>password := None\<rparr>)"
  by (simp add: protect_defs demo_defs demo_ids)

lemma protect_client:
  "protect demo_env demo_db (Some ''Bearer tok-client'') =
     Next ((account clientId ''cleo'' ''client'')\<lparr>password := None\<rparr>)"
  by (simp add: protect_defs demo_defs demo_ids)

lemma valid_haircutId: "isValidObjectId demo_env haircutId"
  by (simp add: isValidObjectId_def demo_defs demo_ids)

lemma valid_facialId: "isValidObjectId demo_env facialId"
  by (simp add: isValidObjectId_def demo_defs demo_ids)

lemma valid_absentId: "isValidObjectId demo_env absentId"
  by (simp add: isValidObjectId_def demo_defs demo_ids)

lemma invalid_abc123: "\<not> isValidObjectId demo_env ''abc123''"
  by (simp add: isValidObjectId_def demo_defs)

lemma lookup_haircut: "map_of (services demo_db) haircutId = Some haircut"
  by (simp add: demo_db_def)

lemma lookup_facial: "map_of (services demo_db) facialId = Some facial"
  by (simp add: demo_db_def demo_ids)

lemma lookup_absent: "map_of (services demo_db) absentId = None"
  by (simp add: demo_db_def demo_ids)


section \<open>Ownership and roles\<close>

text \<open>
  Claim C1. For a resource and an authenticated identity that is not its owner: the
  delete request of an identity with role admin succeeds, the update request of the same
  admin on the same resource is answered Forbidden (403), and an update goes through only
  when the identity's id is the resource's \<open>vendorId\<close>, whatever the role.
\<close>

theorem C1_admin_deletes_but_cannot_update:
  assumes "isValidObjectId E i" and "i \<noteq> []"
    and "map_of (services d) i = Some s"
    and "protect E d (req_authorization r) = Next u"
    and "role u = ''admin''" and "uid u \<noteq> vendorId s"
  shows "deleteService E u i d =
           (json 200 True ''Service deleted successfully'',
            d\<lparr>services := AList.delete i (services d)\<rparr>, [FindById i, FindByIdAndDelete i])
       \<and> map_of (AList.delete i (services d)) i = None
       \<and> updateService E u f i b d =
           (json 403 False ''You are not authorized to update this service'', d, [FindById i])
       \<and> code (fst (router E (r\<lparr>req_method := DELETE, req_path := i\<rparr>) d)) = 200
       \<and> code (fst (router E (r\<lparr>req_method := PUT, req_path := i\<rparr>) d)) = 403
       \<and> fst (snd (router E (r\<lparr>req_method := PUT, req_path := i\<rparr>) d)) = d
       \<and> (\<forall>u' f' b'. uid u' \<noteq> vendorId s \<longrightarrow>
            updateService E u' f' i b' d =
              (json 403 False ''You are not authorized to update this service'', d, [FindById i]))"
proof -
  have del: "deleteService E u i d =
           (json 200 True ''Service deleted successfully'',
            d\<lparr>services := AList.delete i (services d)\<rparr>, [FindById i, FindByIdAndDelete i])"
    using assms by (simp add: deleteService_def Let_def)
  have gone: "map_of (AList.delete i (services d)) i = None"
    by (simp add: delete_conv')
  have upd: "\<And>u' f' b'. uid u' \<noteq> vendorId s \<Longrightarrow>
            updateService E u' f' i b' d =
              (json 403 False ''You are not authorized to update this service'', d, [FindById i])"
    using assms(1,3) by (auto simp: updateService_def)
  have p: "protect E d (req_authorization (r\<lparr>req_method := m, req_path := i\<rparr>)) = Next u" for m
    using assms(4) by simp
  have rdel: "router E (r\<lparr>req_method := DELETE, req_path := i\<rparr>) d = deleteService E u i d"
    using assms(2,5) by (simp add: router_def guarded_Next [OF p])
  have rput: "router E (r\<lparr>req_method := PUT, req_path := i\<rparr>) d =
       (\<lparr>code = 403, success = None,
          message = Some ''Access denied: insufficient permissions'', error = None,
          errors = None, count = None, data = NoData\<rparr>, d, [])"
    using assms(2,5) by (simp add: router_def guarded_reject [OF p])
  show ?thesis
    using del gone upd [OF assms(6)] upd rdel rput by (simp add: json_def)
qed

theorem C1_admin_deletes_but_cannot_update_witness:
  "isValidObjectId demo_env haircutId \<and> haircutId \<noteq> []
   \<and> map_of (services demo_db) haircutId = Some haircut
   \<and> protect demo_env demo_db (req_authorization (demo_request GET [] ''tok-admin''))
       = Next ((account adminId ''ada'' ''admin'')\<lparr>password := None\<rparr>)
   \<and> role ((account adminId ''ada'' ''admin'')\<lparr>password := None\<rparr>) = ''admin''
   \<and> uid ((account adminId ''ada'' ''admin'')\<lparr>password := None\<rparr>) \<noteq> vendorId haircut
   \<and> code (fst (router demo_env (demo_request DELETE haircutId ''tok-admin'') demo_db)) = 200
   \<and> code (fst (router demo_env (demo_request PUT haircutId ''tok-admin'') demo_db)) = 403
   \<and> uid (account vendorTwo ''vito'' ''vendor'') \<noteq> vendorId haircut
   \<and> updateService demo_env (account vendorTwo ''vito'' ''vendor'') None haircutId no_body demo_db
       = (json 403 False ''You are not authorized to update this service'', demo_db,
          [FindById haircutId])"
proof -
  let ?u = "(account adminId ''ada'' ''admin'')\<lparr>password := None\<rparr>"
  let ?r = "demo_request GET [] ''tok-admin''"
  have h1: "isValidObjectId demo_env haircutId" by (rule valid_haircutId)
  have h2: "haircutId \<noteq> []" by (simp add: haircutId_def)
  have h3: "map_of (services demo_db) haircutId = Some haircut" by (rule lookup_haircut)
  have h4: "protect demo_env demo_db (req_authorization ?r) = Next ?u"
    using protect_admin by (simp add: demo_request_def)
  have h5: "role ?u = ''admin''" by (simp add: account_def)
  have h6: "uid ?u \<noteq> vendorId haircut" by (simp add: account_def haircut_def demo_ids)
  have h7: "uid (account vendorTwo ''vito'' ''vendor'') \<noteq> vendorId haircut"
    by (simp add: account_def haircut_def demo_ids)
  have e1: "?r\<lparr>req_method := DELETE, req_path := haircutId\<rparr> = demo_request DELETE haircutId ''tok-admin''"
    by (simp add: demo_request_def)
  have e2: "?r\<lparr>req_method := PUT, req_path := haircutId\<rparr> = demo_request PUT haircutId ''tok-admin''"
    by (simp add: demo_request_def)
  from C1_admin_deletes_but_cannot_update [OF h1 h2 h3 h4 h5 h6, of None no_body]
  show ?thesis
    using h1 h2 h3 h4 h5 h6 h7 unfolding e1 e2 by blast
qed


section \<open>Listing\<close>

lemma listing_client_inactive:
  "listed (fst (getAllServices demo_env ((account clientId ''cleo'' ''client'')\<lparr>password := None\<rparr>)
      (no_params\<lparr>rq_status := Some ''inactive''\<rparr>) demo_db)) = [haircut]"
  by (simp add: getAllServices_def getAllServices_query_def Service_find_def castFails_def
      matches_def newest_first_def listed_def jsonList_def jsonData_def populate_def truthy_def
      demo_defs demo_ids Let_def)

text \<open>
  Claim C2. For an identity with role client and any status parameter, present or absent,
  the selection object of the general listing has status \<open>active\<close> (in both copies of
  the controller), the status parameter changes nothing in it, and every service in the
  listing's answer has status \<open>active\<close>.
\<close>

theorem C2_client_listing_active_only:
  assumes "role u = ''client''"
  shows "query_status (getAllServices_query E (role u) rq) = Some ''active''
       \<and> query_status (getAllServices_query_annotated E (role u) rq) = Some ''active''
       \<and> getAllServices_query E (role u) (rq\<lparr>rq_status := st\<rparr>) = getAllServices_query E (role u) rq
       \<and> (\<forall>s \<in> set (listed (fst (getAllServices E u rq d))). status s = ''active'')"
proof -
  have a: "query_status (getAllServices_query E (role u) rq) = Some ''active''"
    using assms by (simp add: query_client_status)
  have b: "getAllServices_query E (role u) (rq\<lparr>rq_status := st\<rparr>) = getAllServices_query E (role u) rq"
    using assms by (simp add: query_client_ignores_status)
  have c: "status s = ''active''" if "s \<in> set (listed (fst (getAllServices E u rq d)))" for s
    using matches_status [OF listed_getAllServices [OF that] a] .
  from a b c show ?thesis by (simp add: query_annotated_eq)
qed

theorem C2_client_listing_active_only_witness:
  "role ((account clientId ''cleo'' ''client'')\<lparr>password := None\<rparr>) = ''client''
   \<and> listed (fst (getAllServices demo_env ((account clientId ''cleo'' ''client'')\<lparr>password := None\<rparr>)
        (no_params\<lparr>rq_status := Some ''inactive''\<rparr>) demo_db)) = [haircut]
   \<and> status facial = ''inactive''
   \<and> status haircut = ''active''
   \<and> query_status (getAllServices_query demo_env ''client''
        (no_params\<lparr>rq_status := Some ''inactive''\<rparr>)) = Some ''active''
   \<and> getAllServices_query demo_env ''client'' (no_params\<lparr>rq_status := Some ''inactive''\<rparr>)
       = getAllServices_query demo_env ''client'' no_params"
proof -
  let ?u = "(account clientId ''cleo'' ''client'')\<lparr>password := None\<rparr>"
  let ?rq = "no_params\<lparr>rq_status := Some ''inactive''\<rparr>"
  have h: "role ?u = ''client''" by (simp add: account_def)
  have f: "status facial = ''inactive''" by (simp add: facial_def)
  note forced = C2_client_listing_active_only [OF h, of demo_env ?rq None demo_db]
  note ignored = C2_client_listing_active_only [OF h, of demo_env no_params "Some ''inactive''" demo_db]
  have a: "query_status (getAllServices_query demo_env ''client'' ?rq) = Some ''active''"
    using forced [THEN conjunct1] by (simp only: h)
  have b: "getAllServices_query demo_env ''client'' ?rq = getAllServices_query demo_env ''client'' no_params"
    using ignored [THEN conjunct2, THEN conjunct2, THEN conjunct1] by (simp only: h)
  have "haircut \<in> set (listed (fst (getAllServices demo_env ?u ?rq demo_db)))"
    by (simp only: listing_client_inactive) simp
  with forced have g: "status haircut = ''active''" by blast
  from h f g a b listing_client_inactive show ?thesis by blast
qed

text \<open>
  Claim C4, as stated, fails: a \<open>minPrice\<close> that does not parse is not left out of the
  selection object. For an admin and \<open>minPrice=abc\<close> the object carries the lower bound
  \<open>NaN\<close>, and differs from the object built without the parameter.
\<close>

theorem C4_unparsable_bound_is_kept:
  "toNumber demo_env ''abc'' = NaN
   \<and> getAllServices_query demo_env ''admin'' (no_params\<lparr>rq_minPrice := Some ''abc''\<rparr>)
       = \<lparr>query_status = None, query_category = None,
          query_price = Some \<lparr>gte = Some NaN, lte = None\<rparr>\<rparr>
   \<and> lowerBound (getAllServices_query demo_env ''admin'' (no_params\<lparr>rq_minPrice := Some ''abc''\<rparr>))
       \<noteq> None
   \<and> getAllServices_query demo_env ''admin'' (no_params\<lparr>rq_minPrice := Some ''abc''\<rparr>)
       \<noteq> getAllServices_query demo_env ''admin'' no_params"
  by (simp add: getAllServices_query_def lowerBound_def truthy_def demo_defs Let_def)

text \<open>
  Claim C4, amended. For a listing request of a non-client identity, the lower (upper)
  bound of the selection object is \<open>Number\<close> of the \<open>minPrice\<close> (\<open>maxPrice\<close>)
  parameter whenever that parameter is present and not empty, so it is \<open>NaN\<close> when the
  value does not parse; the bound is left out only when the parameter is absent or empty.
\<close>

theorem C4_bound_is_Number_of_parameter:
  assumes "userRole \<noteq> ''client''"
  shows "lowerBound (getAllServices_query E userRole rq)
           = (if truthy (rq_minPrice rq) then map_option (toNumber E) (rq_minPrice rq) else None)
       \<and> upperBound (getAllServices_query E userRole rq)
           = (if truthy (rq_maxPrice rq) then map_option (toNumber E) (rq_maxPrice rq) else None)
       \<and> (\<forall>v. rq_minPrice rq = Some v \<and> v \<noteq> [] \<and> toNumber E v = NaN \<longrightarrow>
             lowerBound (getAllServices_query E userRole rq) = Some NaN)
       \<and> (\<forall>v. rq_maxPrice rq = Some v \<and> v \<noteq> [] \<and> toNumber E v = NaN \<longrightarrow>
             upperBound (getAllServices_query E userRole rq) = Some NaN)"
  by (auto simp: getAllServices_query_def lowerBound_def upperBound_def truthy_def Let_def)

theorem C4_bound_is_Number_of_parameter_witness:
  "''admin'' \<noteq> ''client''
   \<and> rq_minPrice (no_params\<lparr>rq_minPrice := Some ''abc'', rq_maxPrice := Some ''''\<rparr>) = Some ''abc''
   \<and> ''abc'' \<noteq> [] \<and> toNumber demo_env ''abc'' = NaN
   \<and> lowerBound (getAllServices_query demo_env ''admin''
        (no_params\<lparr>rq_minPrice := Some ''abc'', rq_maxPrice := Some ''''\<rparr>)) = Some NaN
   \<and> upperBound (getAllServices_query demo_env ''admin''
        (no_params\<lparr>rq_minPrice := Some ''abc'', rq_maxPrice := Some ''''\<rparr>)) = None
   \<and> rq_maxPrice (no_params\<lparr>rq_maxPrice := Some ''zz''\<rparr>) = Some ''zz''
   \<and> ''zz'' \<noteq> [] \<and> toNumber demo_env ''zz'' = NaN
   \<and> upperBound (getAllServices_query demo_env ''admin'' (no_params\<lparr>rq_maxPrice := Some ''zz''\<rparr>))
       = Some NaN"
proof -
  have h: "''admin'' \<noteq> ''client''" by simp
  have n1: "toNumber demo_env ''abc'' = NaN" by (simp add: demo_defs)
  have n2: "toNumber demo_env ''zz'' = NaN" by (simp add: demo_defs)
  from C4_bound_is_Number_of_parameter [OF h, of demo_env
      "no_params\<lparr>rq_minPrice := Some ''abc'', rq_maxPrice := Some ''''\<rparr>"]
    C4_bound_is_Number_of_parameter [OF h, of demo_env "no_params\<lparr>rq_maxPrice := Some ''zz''\<rparr>"]
  show ?thesis using n1 n2 by (simp add: truthy_def)
qed

text \<open>
  Claim C8. The two copies of the general listing build the same selection object for
  every role and every set of raw parameters; in particular for role vendor both honour a
  non-empty status parameter and otherwise leave the status unrestricted.
\<close>

theorem C8_query_copies_agree:
  "getAllServices_query_annotated E userRole rq = getAllServices_query E userRole rq
   \<and> query_status (getAllServices_query_annotated E ''vendor'' rq)
       = (if truthy (rq_status rq) then rq_status rq else None)
   \<and> query_status (getAllServices_query E ''vendor'' rq)
       = (if truthy (rq_status rq) then rq_status rq else None)"
  by (simp add: getAllServices_query_annotated_def getAllServices_query_def Let_def)

section \<open>Authentication\<close>

text \<open>
  Claim C3, as stated, fails: the three causes of a failed authentication are answered
  with three different bodies. An absent header, a token the verifier rejects and a token
  of an account that does not exist give three pairwise distinct responses.
\<close>

theorem C3_failure_responses_differ:
  "protect demo_env demo_db None = Respond (json 401 False ''Not authorized, no token'')
   \<and> protect demo_env demo_db (Some ''Bearer expired'')
       = Respond (jsonError 401 ''Not authorized, token failed'' ''jwt malformed'')
   \<and> protect demo_env demo_db (Some ''Bearer tok-ghost'')
       = Respond (json 401 False ''User not found'')
   \<and> protect demo_env demo_db None \<noteq> protect demo_env demo_db (Some ''Bearer expired'')
   \<and> protect demo_env demo_db None \<noteq> protect demo_env demo_db (Some ''Bearer tok-ghost'')
   \<and> protect demo_env demo_db (Some ''Bearer expired'')
       \<noteq> protect demo_env demo_db (Some ''Bearer tok-ghost'')"
  by (simp add: protect_defs demo_defs demo_ids json_def jsonError_def)

lemma token_expired: "bearerToken (Some ''Bearer expired'') = Some ''expired''"
  by (simp add: bearerToken_def)

lemma token_ghost: "bearerToken (Some ''Bearer tok-ghost'') = Some ''tok-ghost''"
  by (simp add: bearerToken_def)

lemma token_legacy: "bearerToken (Some ''Bearer tok-legacy'') = Some ''tok-legacy''"
  by (simp add: bearerToken_def)

text \<open>
  Claim C3, amended. Every request that fails authentication is answered with status 401,
  \<open>success = false\<close> and no data, and the body names the cause: \<open>Not authorized, no token\<close>
  when the credential is absent or empty, \<open>Not authorized, token failed\<close> with the
  error's text when verification fails or when the account lookup throws, \<open>User not found\<close>
  when the token verifies and the lookup answers with no account.
\<close>

theorem C3_failures_are_401_with_cause:
  assumes "protect E d h = Respond res"
  shows "code res = 401 \<and> success res = Some False \<and> data res = NoData
       \<and> (\<not> truthy (bearerToken h) \<longrightarrow> res = json 401 False ''Not authorized, no token'')
       \<and> (\<forall>t err. bearerToken h = Some t \<and> t \<noteq> [] \<and> jwtVerify E t = Inl err \<longrightarrow>
             res = jsonError 401 ''Not authorized, token failed'' err)
       \<and> (\<forall>t i err. bearerToken h = Some t \<and> t \<noteq> [] \<and> jwtVerify E t = Inr i
                  \<and> userLookupError E i = Some err \<longrightarrow>
             res = jsonError 401 ''Not authorized, token failed'' err)
       \<and> (\<forall>t i. bearerToken h = Some t \<and> t \<noteq> [] \<and> jwtVerify E t = Inr i
                  \<and> userLookupError E i = None \<and> map_of (users d) i = None \<longrightarrow>
             res = json 401 False ''User not found'')"
  using assms
  by (auto simp: protect_def truthy_def json_def jsonError_def
      split: option.splits if_splits sum.splits)

theorem C3_failures_are_401_with_cause_witness:
  "protect demo_env demo_db None = Respond (json 401 False ''Not authorized, no token'')
   \<and> \<not> truthy (bearerToken None)
   \<and> code (json 401 False ''Not authorized, no token'') = 401
   \<and> protect demo_env demo_db (Some ''Bearer expired'')
       = Respond (jsonError 401 ''Not authorized, token failed'' ''jwt malformed'')
   \<and> bearerToken (Some ''Bearer expired'') = Some ''expired''
   \<and> jwtVerify demo_env ''expired'' = Inl ''jwt malformed''
   \<and> code (jsonError 401 ''Not authorized, token failed'' ''jwt malformed'') = 401
   \<and> protect demo_env demo_db (Some ''Bearer tok-legacy'')
       = Respond (jsonError 401 ''Not authorized, token failed''
           ''Cast to ObjectId failed at path _id'')
   \<and> bearerToken (Some ''Bearer tok-legacy'') = Some ''tok-legacy''
   \<and> jwtVerify demo_env ''tok-legacy'' = Inr ''user-17''
   \<and> userLookupError demo_env ''user-17'' = Some ''Cast to ObjectId failed at path _id''
   \<and> protect demo_env demo_db (Some ''Bearer tok-ghost'')
       = Respond (json 401 False ''User not found'')
   \<and> bearerToken (Some ''Bearer tok-ghost'') = Some ''tok-ghost''
   \<and> jwtVerify demo_env ''tok-ghost'' = Inr ghostId
   \<and> userLookupError demo_env ghostId = None
   \<and> map_of (users demo_db) ghostId = None
   \<and> code (json 401 False ''User not found'') = 401"
proof -
  have c1: "\<not> truthy (bearerToken None)" by (simp add: truthy_def bearerToken_def)
  have c2: "jwtVerify demo_env ''expired'' = Inl ''jwt malformed''" by (simp add: demo_defs)
  have c3: "jwtVerify demo_env ''tok-ghost'' = Inr ghostId" by (simp add: demo_defs)
  have c4: "map_of (users demo_db) ghostId = None" by (simp add: demo_defs demo_ids)
  have c5: "jwtVerify demo_env ''tok-legacy'' = Inr ''user-17''" by (simp add: demo_defs)
  have c6: "userLookupError demo_env ''user-17'' = Some ''Cast to ObjectId failed at path _id''"
    by (simp add: demo_defs)
  have c7: "userLookupError demo_env ghostId = None" by (simp add: demo_defs demo_ids)
  have p1: "protect demo_env demo_db None = Respond (json 401 False ''Not authorized, no token'')"
    by (simp add: protect_defs)
  have p2: "protect demo_env demo_db (Some ''Bearer expired'')
       = Respond (jsonError 401 ''Not authorized, token failed'' ''jwt malformed'')"
    by (simp add: protect_def token_expired c2)
  have p3: "protect demo_env demo_db (Some ''Bearer tok-ghost'')
       = Respond (json 401 False ''User not found'')"
    by (simp add: protect_def token_ghost c3 c4 c7)
  have p4: "protect demo_env demo_db (Some ''Bearer tok-legacy'')
       = Respond (jsonError 401 ''Not authorized, token failed''
           ''Cast to ObjectId failed at path _id'')"
    by (simp add: protect_def token_legacy c5 c6)
  note absent = C3_failures_are_401_with_cause [OF p1]
  note rejected = C3_failures_are_401_with_cause [OF p2]
  note gone = C3_failures_are_401_with_cause [OF p3]
  note thrown = C3_failures_are_401_with_cause [OF p4]
  from absent have k1: "code (json 401 False ''Not authorized, no token'') = 401" by blast
  from rejected have k2: "code (jsonError 401 ''Not authorized, token failed'' ''jwt malformed'') = 401"
    by blast
  from gone have k3: "code (json 401 False ''User not found'') = 401" by blast
  from thrown have k4: "userLookupError demo_env ''user-17'' = Some ''Cast to ObjectId failed at path _id''"
    using c6 by blast
  from p1 p2 p3 p4 c1 c2 c3 c4 c5 c7 k1 k2 k3 k4 token_expired token_ghost token_legacy
  show ?thesis by blast
qed

text \<open>
  Claim C10. When \<open>protect\<close> lets a request through, the identity it attaches is a
  stored account with the password field removed: the identity has no password, the role
  gate hands on that same identity, and the controller behind the gate receives it.
\<close>

theorem C10_identity_without_password:
  assumes "protect E d h = Next u"
  shows "password u = None
       \<and> (\<exists>i acct. map_of (users d) i = Some acct \<and> u = acct\<lparr>password := None\<rparr>)
       \<and> (\<forall>roles u'. authorize roles u = Next u' \<longrightarrow> password u' = None)
       \<and> (\<forall>r roles c. req_authorization r = h \<and> role u \<in> set roles \<longrightarrow>
             guarded E d r roles c = c u)"
proof -
  from assms obtain i acct where a: "map_of (users d) i = Some acct"
    and u: "u = acct\<lparr>password := None\<rparr>"
    by (auto simp: protect_def select_without_password_def
        split: option.splits if_splits sum.splits)
  have p: "password u = None" by (simp add: u)
  have g: "\<And>r roles c. req_authorization r = h \<Longrightarrow> role u \<in> set roles \<Longrightarrow>
      guarded E d r roles c = c u"
    using assms by (simp add: guarded_Next)
  have z: "\<And>roles u'. authorize roles u = Next u' \<Longrightarrow> password u' = None"
    using p by (auto simp: authorize_def split: if_splits)
  from a u p g z show ?thesis by blast
qed

theorem C10_identity_without_password_witness:
  "protect demo_env demo_db (Some ''Bearer tok-vendor1'')
     = Next ((account vendorOne ''vera'' ''vendor'')\<lparr>password := None\<rparr>)
   \<and> map_option password (map_of (users demo_db) vendorOne) = Some (Some ''$2b$10$hash'')
   \<and> password ((account vendorOne ''vera'' ''vendor'')\<lparr>password := None\<rparr>) = None
   \<and> authorize [''vendor'', ''admin''] ((account vendorOne ''vera'' ''vendor'')\<lparr>password := None\<rparr>)
       = Next ((account vendorOne ''vera'' ''vendor'')\<lparr>password := None\<rparr>)"
proof -
  let ?u = "(account vendorOne ''vera'' ''vendor'')\<lparr>password := None\<rparr>"
  have h: "protect demo_env demo_db (Some ''Bearer tok-vendor1'') = Next ?u"
    by (rule protect_vendor1)
  have stored: "map_option password (map_of (users demo_db) vendorOne) = Some (Some ''$2b$10$hash'')"
    by (simp add: demo_db_def account_def demo_ids)
  have a: "authorize [''vendor'', ''admin''] ?u = Next ?u"
    by (simp add: authorize_def account_def)
  from C10_identity_without_password [OF h] have "password ?u = None" by blast
  with h stored a show ?thesis by blast
qed

section \<open>Single-resource operations\<close>

text \<open>
  Claim C5. For an id that is not in the store's identifier format, read, update and
  delete answer \<open>Invalid service ID format\<close> (400) and issue no call on the service
  collection; for a well-formed id with no document they answer \<open>Service not found\<close>
  (404) after the one lookup; the two answers are distinct.
\<close>

theorem C5_invalid_id_before_lookup:
  "(\<not> isValidObjectId E i \<longrightarrow>
      getServiceById E i d = (invalidId, d, [])
    \<and> updateService E u f i b d = (invalidId, d, [])
    \<and> deleteService E u i d = (invalidId, d, []))
   \<and> (isValidObjectId E i \<and> map_of (services d) i = None \<longrightarrow>
      getServiceById E i d = (notFound, d, [FindById i])
    \<and> updateService E u f i b d = (notFound, d, [FindById i])
    \<and> deleteService E u i d = (notFound, d, [FindById i]))
   \<and> code invalidId = 400 \<and> code notFound = 404 \<and> invalidId \<noteq> notFound"
  by (simp add: getServiceById_def updateService_def deleteService_def invalidId_def
      notFound_def json_def)

theorem C5_invalid_id_before_lookup_witness:
  "\<not> isValidObjectId demo_env ''abc123''
   \<and> getServiceById demo_env ''abc123'' demo_db = (invalidId, demo_db, [])
   \<and> updateService demo_env (account vendorOne ''vera'' ''vendor'') None ''abc123'' no_body demo_db
       = (invalidId, demo_db, [])
   \<and> deleteService demo_env (account vendorOne ''vera'' ''vendor'') ''abc123'' demo_db
       = (invalidId, demo_db, [])
   \<and> isValidObjectId demo_env absentId \<and> map_of (services demo_db) absentId = None
   \<and> getServiceById demo_env absentId demo_db = (notFound, demo_db, [FindById absentId])
   \<and> updateService demo_env (account vendorOne ''vera'' ''vendor'') None absentId no_body demo_db
       = (notFound, demo_db, [FindById absentId])
   \<and> deleteService demo_env (account vendorOne ''vera'' ''vendor'') absentId demo_db
       = (notFound, demo_db, [FindById absentId])"
  using C5_invalid_id_before_lookup [of demo_env "''abc123''" demo_db
      "account vendorOne ''vera'' ''vendor''" None no_body]
    C5_invalid_id_before_lookup [of demo_env absentId demo_db
      "account vendorOne ''vera'' ''vendor''" None no_body]
    invalid_abc123 valid_absentId lookup_absent
  by simp

text \<open>
  Claim C9. For an authenticated identity of any of the three roles and a well-formed id
  of an existing service, the read by id answers with that service, with no check of
  ownership or status: a client reads an inactive service by its id although the
  client's listing never contains it.
\<close>

theorem C9_read_by_id_unrestricted:
  assumes "isValidObjectId E i" and "i \<noteq> []" and "i \<noteq> ''my-services''"
    and "map_of (services d) i = Some s"
    and "req_method r = GET" and "req_path r = i"
    and "protect E d (req_authorization r) = Next u"
    and "role u = ''client'' \<or> role u = ''vendor'' \<or> role u = ''admin''"
  shows "getServiceById E i d =
           (jsonData 200 (One s (snd (populate [''name'', ''email'', ''phone''] (users d) s))),
            d, [FindById i])
       \<and> router E r d = getServiceById E i d
       \<and> listed (fst (router E r d)) = [s]
       \<and> (role u = ''client'' \<and> status s \<noteq> ''active'' \<longrightarrow>
            s \<notin> set (listed (fst (getAllServices E u rq d))))"
proof -
  have byId: "getServiceById E i d =
           (jsonData 200 (One s (snd (populate [''name'', ''email'', ''phone''] (users d) s))),
            d, [FindById i])"
    using assms(1,4) by (simp add: getServiceById_def populate_def)
  have allowed: "role u \<in> set [''client'', ''vendor'', ''admin'']"
    using assms(8) by auto
  have routed: "router E r d = getServiceById E i d"
    using assms(2,3,5,6) guarded_Next [OF assms(7) allowed] by (simp add: router_def)
  have one: "listed (fst (router E r d)) = [s]"
    by (simp add: routed byId listed_def jsonData_def)
  have hidden: "s \<notin> set (listed (fst (getAllServices E u rq d)))"
    if c: "role u = ''client''" and st: "status s \<noteq> ''active''"
  proof
    assume "s \<in> set (listed (fst (getAllServices E u rq d)))"
    from listed_getAllServices [OF this] have "matches (getAllServices_query E ''client'' rq) s"
      by (simp add: c)
    from matches_status [OF this query_client_status] st show False by simp
  qed
  from byId routed one hidden show ?thesis by blast
qed

theorem C9_read_by_id_unrestricted_witness:
  "isValidObjectId demo_env facialId \<and> facialId \<noteq> [] \<and> facialId \<noteq> ''my-services''
   \<and> map_of (services demo_db) facialId = Some facial
   \<and> req_method (demo_request GET facialId ''tok-client'') = GET
   \<and> req_path (demo_request GET facialId ''tok-client'') = facialId
   \<and> protect demo_env demo_db (req_authorization (demo_request GET facialId ''tok-client''))
       = Next ((account clientId ''cleo'' ''client'')\<lparr>password := None\<rparr>)
   \<and> role ((account clientId ''cleo'' ''client'')\<lparr>password := None\<rparr>) = ''client''
   \<and> status facial = ''inactive'' \<and> status facial \<noteq> ''active''
   \<and> listed (fst (router demo_env (demo_request GET facialId ''tok-client'') demo_db)) = [facial]
   \<and> facial \<notin> set (listed (fst (getAllServices demo_env
        ((account clientId ''cleo'' ''client'')\<lparr>password := None\<rparr>) no_params demo_db)))"
proof -
  let ?u = "(account clientId ''cleo'' ''client'')\<lparr>password := None\<rparr>"
  let ?r = "demo_request GET facialId ''tok-client''"
  have h1: "isValidObjectId demo_env facialId" by (rule valid_facialId)
  have h2: "facialId \<noteq> []" by (simp add: facialId_def)
  have h3: "facialId \<noteq> ''my-services''" by (simp add: facialId_def)
  have h4: "map_of (services demo_db) facialId = Some facial" by (rule lookup_facial)
  have h5: "req_method ?r = GET" by (simp add: demo_request_def)
  have h6: "req_path ?r = facialId" by (simp add: demo_request_def)
  have h7: "protect demo_env demo_db (req_authorization ?r) = Next ?u"
    using protect_client by (simp add: demo_request_def)
  have h8: "role ?u = ''client''" by (simp add: account_def)
  have h9: "role ?u = ''client'' \<or> role ?u = ''vendor'' \<or> role ?u = ''admin''"
    using h8 by simp
  have s1: "status facial = ''inactive''" by (simp add: facial_def)
  have s2: "status facial \<noteq> ''active''" by (simp add: facial_def)
  note read = C9_read_by_id_unrestricted [OF h1 h2 h3 h4 h5 h6 h7 h9, of no_params]
  note one = read [THEN conjunct2, THEN conjunct2, THEN conjunct1]
  note hidden = read [THEN conjunct2, THEN conjunct2, THEN conjunct2, rule_format, OF conjI, OF h8 s2]
  from one hidden show ?thesis using h1 h2 h3 h4 h5 h6 h7 h8 s1 s2 by blast
qed

text \<open>
  Claim C7. For an existing service and an identity allowed to delete it (its vendor, or
  an admin), the same delete request issued twice is answered with success the first time
  and with \<open>Service not found\<close> (404) the second time.
\<close>

theorem C7_second_delete_not_found:
  assumes "isValidObjectId E i" and "i \<noteq> []"
    and "map_of (services d) i = Some s"
    and "req_method r = DELETE" and "req_path r = i"
    and "protect E d (req_authorization r) = Next u"
    and "role u = ''vendor'' \<and> vendorId s = uid u \<or> role u = ''admin''"
  shows "deleteService E u i d =
           (json 200 True ''Service deleted successfully'',
            d\<lparr>services := AList.delete i (services d)\<rparr>, [FindById i, FindByIdAndDelete i])
       \<and> deleteService E u i (d\<lparr>services := AList.delete i (services d)\<rparr>) =
           (notFound, d\<lparr>services := AList.delete i (services d)\<rparr>, [FindById i])
       \<and> router E r d = deleteService E u i d
       \<and> router E r (fst (snd (router E r d))) =
           (notFound, d\<lparr>services := AList.delete i (services d)\<rparr>, [FindById i])"
proof -
  let ?d = "d\<lparr>services := AList.delete i (services d)\<rparr>"
  have first: "deleteService E u i d =
           (json 200 True ''Service deleted successfully'', ?d, [FindById i, FindByIdAndDelete i])"
    using assms(1,3,7) by (auto simp: deleteService_def Let_def)
  have second: "deleteService E u i ?d = (notFound, ?d, [FindById i])"
    using assms(1) by (simp add: deleteService_def delete_conv')
  have allowed: "role u \<in> set [''vendor'', ''admin'']"
    using assms(7) by auto
  have r1: "router E r d = deleteService E u i d"
    using assms(2,4,5) guarded_Next [OF assms(6) allowed]
    by (simp add: router_def)
  have p2: "protect E ?d (req_authorization r) = Next u"
    using assms(6) by (simp add: protect_services)
  have r2: "router E r ?d = deleteService E u i ?d"
    using assms(2,4,5) guarded_Next [OF p2 allowed]
    by (simp add: router_def)
  from first second r1 r2 show ?thesis by simp
qed

theorem C7_second_delete_not_found_witness:
  "isValidObjectId demo_env haircutId \<and> haircutId \<noteq> []
   \<and> map_of (services demo_db) haircutId = Some haircut
   \<and> req_method (demo_request DELETE haircutId ''tok-vendor1'') = DELETE
   \<and> req_path (demo_request DELETE haircutId ''tok-vendor1'') = haircutId
   \<and> protect demo_env demo_db (req_authorization (demo_request DELETE haircutId ''tok-vendor1''))
       = Next ((account vendorOne ''vera'' ''vendor'')\<lparr>password := None\<rparr>)
   \<and> role ((account vendorOne ''vera'' ''vendor'')\<lparr>password := None\<rparr>) = ''vendor''
   \<and> vendorId haircut = uid ((account vendorOne ''vera'' ''vendor'')\<lparr>password := None\<rparr>)
   \<and> code (fst (router demo_env (demo_request DELETE haircutId ''tok-vendor1'') demo_db)) = 200
   \<and> code (fst (router demo_env (demo_request DELETE haircutId ''tok-vendor1'')
        (fst (snd (router demo_env (demo_request DELETE haircutId ''tok-vendor1'') demo_db))))) = 404"
proof -
  let ?u = "(account vendorOne ''vera'' ''vendor'')\<lparr>password := None\<rparr>"
  let ?r = "demo_request DELETE haircutId ''tok-vendor1''"
  have h1: "isValidObjectId demo_env haircutId" by (rule valid_haircutId)
  have h2: "haircutId \<noteq> []" by (simp add: haircutId_def)
  have h3: "map_of (services demo_db) haircutId = Some haircut" by (rule lookup_haircut)
  have h4: "req_method ?r = DELETE" by (simp add: demo_request_def)
  have h5: "req_path ?r = haircutId" by (simp add: demo_request_def)
  have h6: "protect demo_env demo_db (req_authorization ?r) = Next ?u"
    using protect_vendor1 by (simp add: demo_request_def)
  have h7: "role ?u = ''vendor''" by (simp add: account_def)
  have h8: "vendorId haircut = uid ?u" by (simp add: account_def haircut_def)
  have h9: "role ?u = ''vendor'' \<and> vendorId haircut = uid ?u \<or> role ?u = ''admin''"
    using h7 h8 by simp
  note twice = C7_second_delete_not_found [OF h1 h2 h3 h4 h5 h6 h9]
  note first = twice [THEN conjunct1]
  note routed = twice [THEN conjunct2, THEN conjunct2, THEN conjunct1]
  note again = twice [THEN conjunct2, THEN conjunct2, THEN conjunct2]
  have c1: "code (fst (router demo_env ?r demo_db)) = 200"
    by (simp only: routed first fst_conv) (simp add: json_def)
  have c2: "code (fst (router demo_env ?r (fst (snd (router demo_env ?r demo_db))))) = 404"
    by (simp only: again fst_conv) (simp add: notFound_def json_def)
  from c1 c2 show ?thesis using h1 h2 h3 h4 h5 h6 h7 h8 by blast
qed

lemma takeover_result:
  "router demo_env takeover_request demo_db =
     ((json 200 True ''Service updated successfully'')\<lparr>data := Doc (Some (haircut\<lparr>price := 60\<rparr>))\<rparr>,
      demo_db\<lparr>services := [(haircutId, haircut\<lparr>price := 60\<rparr>), (facialId, facial)]\<rparr>,
      [FindById haircutId, FindByIdAndUpdate haircutId (no_body\<lparr>b_price := Some 60\<rparr>)])"
  by (simp add: router_def guarded_def authorize_def protect_defs updateService_def
      isValidObjectId_def Service_findByIdAndUpdate_def mergedSet_def written_over_def
      no_fields_def castUpdate_def applyPatch_def or_else_def
      takeover_request_def takeover_def demo_defs demo_ids Let_def)

lemma handover_result:
  "router demo_env handover_request demo_db =
     ((json 200 True ''Service updated successfully'')
        \<lparr>data := Doc (Some (haircut\<lparr>vendorId := vendorTwo\<rparr>))\<rparr>,
      demo_db\<lparr>services := [(haircutId, haircut\<lparr>vendorId := vendorTwo\<rparr>), (facialId, facial)]\<rparr>,
      [FindById haircutId, FindByIdAndUpdate haircutId handover])"
  by (simp add: router_def guarded_def authorize_def protect_defs updateService_def
      isValidObjectId_def Service_findByIdAndUpdate_def mergedSet_def written_over_def
      no_fields_def castUpdate_def applyPatch_def or_else_def
      handover_request_def handover_def demo_defs demo_ids Let_def)

text \<open>
  Claim C6 does not hold of the code. \<open>updateService\<close> removes the \<open>vendorId\<close> at the
  top level of the body, so the owner's update that names another vendor there leaves
  the owner as it was; the same update with the \<open>vendorId\<close> under the body's \<open>$set\<close>
  key passes the removal untouched, is answered with success, and the service then
  belongs to the other vendor.
\<close>

theorem C6_set_operator_reassigns_owner:
  "map_of (services demo_db) haircutId = Some haircut
   \<and> vendorId haircut = vendorOne
   \<and> b_vendorId (req_body takeover_request) = Some vendorTwo
   \<and> map_of (services (fst (snd (router demo_env takeover_request demo_db)))) haircutId
       = Some (haircut\<lparr>price := 60\<rparr>)
   \<and> vendorId (haircut\<lparr>price := 60\<rparr>) = vendorOne
   \<and> req_body handover_request
       = no_body\<lparr>b_set := Some (no_fields\<lparr>set_vendorId := Some vendorTwo\<rparr>)\<rparr>
   \<and> code (fst (router demo_env handover_request demo_db)) = 200
   \<and> snd (snd (router demo_env handover_request demo_db))
       = [FindById haircutId, FindByIdAndUpdate haircutId (req_body handover_request)]
   \<and> map_of (services (fst (snd (router demo_env handover_request demo_db)))) haircutId
       = Some (haircut\<lparr>vendorId := vendorTwo\<rparr>)
   \<and> vendorId (haircut\<lparr>vendorId := vendorTwo\<rparr>) = vendorTwo
   \<and> vendorTwo \<noteq> vendorOne"
  by (simp add: takeover_result handover_result lookup_haircut json_def)
    (simp add: haircut_def takeover_request_def takeover_def handover_request_def handover_def
      demo_request_def demo_ids)

end
